theory Spec2Isabelle
  imports Main
begin

section \<open>JavaScript values, objects and exceptions\<close>

text \<open>
  The values that flow through \<^verbatim>\<open>src/Model.js\<close>: payloads, field values, ids and
  whatever is handed to \<^verbatim>\<open>Model.connect\<close>. Numbers are integers (no NaN, no
  fractions). A Session object lives in a store and is denoted by its address, so
  that two holders of one session see each other's appends. An object is the list of
  its own enumerable properties in enumeration order; inherited properties of
  \<^verbatim>\<open>Object.prototype\<close> are not represented.
\<close>

type_synonym addr = nat

datatype jsval =
    JUndefined
  | JNull
  | JBool bool
  | JNum int
  | JStr string
  | JArr "jsval list"
  | JObj "(string \<times> jsval) list"
  | JSession addr

datatype error =
    TypeError
  | Error string
  | DuplicateIdError
  | InvalidMutationError
  | SessionClosedError

text \<open>A statement that may throw: the rest runs only when nothing was thrown.\<close>

definition and_then :: "error + 'a \<Rightarrow> ('a \<Rightarrow> error + 'b) \<Rightarrow> error + 'b" where
  "and_then m f = (case m of Inl e \<Rightarrow> Inl e | Inr x \<Rightarrow> f x)"

text \<open>\<^verbatim>\<open>obj[k] = v\<close>, and an object literal's computed key: an existing key keeps its
  place and takes the new value, a new key goes last.\<close>

fun obj_put :: "(string \<times> 'v) list \<Rightarrow> string \<Rightarrow> 'v \<Rightarrow> (string \<times> 'v) list" where
  "obj_put [] k v = [(k, v)]"
| "obj_put ((k', v') # kvs) k v =
     (if k' = k then (k', v) # kvs else (k', v') # obj_put kvs k v)"

text \<open>\<^verbatim>\<open>obj[k]\<close> on an object: \<^verbatim>\<open>undefined\<close> for a key it does not have.\<close>

definition obj_get :: "(string \<times> jsval) list \<Rightarrow> string \<Rightarrow> jsval" where
  "obj_get kvs k = (case map_of kvs k of None \<Rightarrow> JUndefined | Some v \<Rightarrow> v)"

text \<open>\<^verbatim>\<open>v.k\<close> for a property name \<open>k\<close> that no built-in prototype defines (it is used
  for \<^verbatim>\<open>idArr\<close> and \<^verbatim>\<open>updater\<close>): reading a property of \<^verbatim>\<open>undefined\<close> or
  \<^verbatim>\<open>null\<close> throws a TypeError, every other non-object has no such property.\<close>

fun property_of :: "jsval \<Rightarrow> string \<Rightarrow> error + jsval" where
  "property_of JUndefined k = Inl TypeError"
| "property_of JNull k = Inl TypeError"
| "property_of (JObj kvs) k = Inr (obj_get kvs k)"
| "property_of v k = Inr JUndefined"

text \<open>\<^verbatim>\<open>!v\<close> is the negation of this.\<close>

fun truthy :: "jsval \<Rightarrow> bool" where
  "truthy JUndefined = False"
| "truthy JNull = False"
| "truthy (JBool b) = b"
| "truthy (JNum n) = (n \<noteq> 0)"
| "truthy (JStr s) = (s \<noteq> [])"
| "truthy v = True"

text \<open>\<^verbatim>\<open>v instanceof Session\<close>: only an object created by the Session class is one; a
  primitive never is.\<close>

fun instanceof_Session :: "jsval \<Rightarrow> bool" where
  "instanceof_Session (JSession a) = True"
| "instanceof_Session v = False"

fun is_primitive :: "jsval \<Rightarrow> bool" where
  "is_primitive (JArr xs) = False"
| "is_primitive (JObj kvs) = False"
| "is_primitive (JSession a) = False"
| "is_primitive v = True"

text \<open>\<^verbatim>\<open>a === b\<close>. On primitives it is equality of the values, on session references
  equality of the addresses. Arrays and objects are compared by reference in
  JavaScript, which \<^typ>\<open>jsval\<close> does not represent: statements that use
  \<open>strict_equals\<close> are made for primitive operands.\<close>

definition strict_equals :: "jsval \<Rightarrow> jsval \<Rightarrow> bool" where
  "strict_equals a b = (a = b)"


section \<open>Collaborators that are imported by Model.js\<close>

subsection \<open>constants.js\<close>

text \<open>The tags \<^verbatim>\<open>CREATE\<close>, \<^verbatim>\<open>UPDATE\<close>, \<^verbatim>\<open>DELETE\<close> are imported from
  \<^verbatim>\<open>./constants\<close>; their values are a parameter of everything below.\<close>

record constants =
  CREATE :: string
  UPDATE :: string
  DELETE :: string

subsection \<open>Mutation records\<close>

text \<open>The object \<^verbatim>\<open>{type, payload, meta: {name}}\<close> that is appended to a session.\<close>

record mutation =
  mut_type :: string
  mut_payload :: jsval
  mut_meta_name :: string

subsection \<open>Meta.js\<close>

text \<open>A Meta instance, as Model.js uses it: its \<^verbatim>\<open>name\<close> and \<^verbatim>\<open>idAttribute\<close>
  properties and its methods \<^verbatim>\<open>getDefaultState\<close>, \<^verbatim>\<open>insert\<close>, \<^verbatim>\<open>update\<close>
  and \<^verbatim>\<open>delete\<close> over a branch state of type \<open>'s\<close>. The methods are parameters: they
  may throw, and they do not touch anything but their arguments.\<close>

record 's Meta =
  Meta_name :: string
  Meta_idAttribute :: string
  Meta_getDefaultState :: "'s"
  Meta_insert :: "'s \<Rightarrow> jsval \<Rightarrow> error + 's"
  Meta_update :: "'s \<Rightarrow> jsval \<Rightarrow> jsval \<Rightarrow> error + 's"
  Meta_delete :: "'s \<Rightarrow> jsval \<Rightarrow> error + 's"

subsection \<open>Session.js\<close>

text \<open>Modelled from the spec: the Session class (\<^verbatim>\<open>src/Session.js\<close> is not among the
  sources). Section 4.3: a session holds the current state of every entity and the
  ordered, append-only mutation log; it is Open until it is Finalized;
  \<^verbatim>\<open>addMutation\<close> fails with InvalidMutationError when the record's target entity is
  no known schema and with SessionClosedError when the session is not Open, and
  appends otherwise; \<^verbatim>\<open>getMutationsFor\<close> returns, in append order, exactly the
  records whose target entity matches.\<close>

record 's Session =
  Session_state :: "(string \<times> 's) list"
  Session_mutations :: "mutation list"
  Session_finalized :: bool
  Session_schemas :: "string list"

definition Session_getState :: "'s Session \<Rightarrow> string \<Rightarrow> 's option" where
  "Session_getState s modelName = map_of (Session_state s) modelName"

definition Session_addMutation :: "'s Session \<Rightarrow> mutation \<Rightarrow> error + 's Session" where
  "Session_addMutation s m =
     (if Session_finalized s then Inl SessionClosedError
      else if mut_meta_name m \<notin> set (Session_schemas s) then Inl InvalidMutationError
      else Inr (s\<lparr>Session_mutations := Session_mutations s @ [m]\<rparr>))"

definition Session_getMutationsFor :: "'s Session \<Rightarrow> string \<Rightarrow> mutation list" where
  "Session_getMutationsFor s modelName =
     filter (\<lambda>m. mut_meta_name m = modelName) (Session_mutations s)"

subsection \<open>fields.js\<close>

text \<open>Modelled from the spec: the field classes (\<^verbatim>\<open>src/fields.js\<close> is not among the
  sources). Section 3, FieldKind: a plain attribute, a foreign key with its target
  entity, or a many-to-many field with its target entity and an optional explicit
  through-entity name. Model.js reads the target as \<^verbatim>\<open>relatedModelName\<close>.\<close>

datatype FieldInstance =
    Attribute
  | ForeignKey string
  | ManyToMany string "string option"

subsection \<open>utils.js\<close>

text \<open>The naming functions imported from \<^verbatim>\<open>./utils\<close> are parameters.\<close>

record utils =
  m2mName :: "string \<Rightarrow> string \<Rightarrow> string"
  m2mFromFieldName :: "string \<Rightarrow> string"
  m2mToFieldName :: "string \<Rightarrow> string"

text \<open>Modelled from the spec: the naming functions of utils.js (\<^verbatim>\<open>src/utils.js\<close> is
  not among the sources). Section 3: a through-entity is named deterministically from
  the declaring entity's name and the field, and its two foreign keys are named
  deterministically from the declaring entity's name under the marker \<^verbatim>\<open>from\<close> and
  from the target entity's name under the marker \<^verbatim>\<open>to\<close>. The spec fixes the two
  markers and no more: how the through name is built (\<open>through_name\<close>) and what an
  entity's name contributes after the marker (\<open>of_name\<close>) stay parameters.\<close>

definition spec_utils :: "(string \<Rightarrow> string \<Rightarrow> string) \<Rightarrow> (string \<Rightarrow> string) \<Rightarrow> utils" where
  "spec_utils through_name of_name =
     \<lparr>m2mName = through_name,
      m2mFromFieldName = (\<lambda>A. ''from'' @ of_name A),
      m2mToFieldName = (\<lambda>B. ''to'' @ of_name B)\<rparr>"


section \<open>The program state\<close>

text \<open>
  A model class carries two mutable static slots, \<^verbatim>\<open>_meta\<close> and \<^verbatim>\<open>_session\<close>
  (written \<open>u_meta\<close>, \<open>u_session\<close>), beside what its declaration fixes: its
  \<^verbatim>\<open>fields\<close> and \<^verbatim>\<open>virtualFields\<close> (the record package keeps the name
  \<open>fields\<close> for itself, hence \<open>class_fields\<close>) and the outcome \<open>newMeta\<close> of
  \<^verbatim>\<open>new (this.getMetaClass())(this.getMetaOptions())\<close>. For the base class
  \<^verbatim>\<open>getMetaOptions\<close> throws, see \<open>Model_newMeta\<close>.
\<close>

type_synonym class_ref = nat

record 's ModelClass =
  class_fields :: "(string \<times> FieldInstance) list"
  class_virtualFields :: "(string \<times> FieldInstance) list"
  newMeta :: "error + 's Meta"
  u_meta :: "'s Meta option"
  u_session :: jsval

definition Model_newMeta :: "error + 's Meta" where
  "Model_newMeta =
     Inl (Error ''You must declare a static getMetaOptions function in your Model class.'')"

record 's world =
  classes :: "class_ref \<Rightarrow> 's ModelClass"
  sessions :: "addr \<Rightarrow> 's Session"

definition set_class :: "'s world \<Rightarrow> class_ref \<Rightarrow> 's ModelClass \<Rightarrow> 's world" where
  "set_class w cid cls = w\<lparr>classes := (classes w)(cid := cls)\<rparr>"


section \<open>Static methods of Model\<close>

text \<open>\<^verbatim>\<open>getMetaInstance\<close> (lines 172-178): the Meta instance is created on first use
  and kept in \<^verbatim>\<open>_meta\<close>.\<close>

definition getMetaInstance :: "'s world \<Rightarrow> class_ref \<Rightarrow> error + ('s Meta \<times> 's world)" where
  "getMetaInstance w cid =
     (case u_meta (classes w cid) of
        Some meta \<Rightarrow> Inr (meta, w)
      | None \<Rightarrow>
          and_then (newMeta (classes w cid)) (\<lambda>meta.
            Inr (meta, set_class w cid ((classes w cid)\<lparr>u_meta := Some meta\<rparr>))))"

text \<open>\<^verbatim>\<open>getName\<close> (lines 251-253).\<close>

definition getName :: "'s world \<Rightarrow> class_ref \<Rightarrow> error + (string \<times> 's world)" where
  "getName w cid =
     and_then (getMetaInstance w cid) (\<lambda>(meta, w1). Inr (Meta_name meta, w1))"

text \<open>\<^verbatim>\<open>static get session\<close> (lines 319-321).\<close>

definition session :: "'s world \<Rightarrow> class_ref \<Rightarrow> jsval" where
  "session w cid = u_session (classes w cid)"

text \<open>\<^verbatim>\<open>static get state\<close> (lines 91-93), \<^verbatim>\<open>this.session.getState(this.getName())\<close>.
  The method is looked up before the argument is evaluated: on \<^verbatim>\<open>undefined\<close> and
  \<^verbatim>\<open>null\<close> the lookup throws; on any other value that is no session the argument is
  evaluated and the call of a non-function throws.\<close>

definition state :: "'s world \<Rightarrow> class_ref \<Rightarrow> error + ('s option \<times> 's world)" where
  "state w cid =
     (case session w cid of
        JUndefined \<Rightarrow> Inl TypeError
      | JNull \<Rightarrow> Inl TypeError
      | JSession a \<Rightarrow>
          and_then (getName w cid) (\<lambda>(n, w1). Inr (Session_getState (sessions w1 a) n, w1))
      | _ \<Rightarrow> and_then (getName w cid) (\<lambda>(n, w1). Inl TypeError))"

text \<open>\<^verbatim>\<open>this.session.getMutationsFor(this)\<close> (line 192); the session asks the class
  for its name.\<close>

definition getMutationsFor :: "'s world \<Rightarrow> class_ref \<Rightarrow> error + (mutation list \<times> 's world)" where
  "getMutationsFor w cid =
     (case session w cid of
        JSession a \<Rightarrow>
          and_then (getName w cid) (\<lambda>(n, w1).
            Inr (Session_getMutationsFor (sessions w1 a) n, w1))
      | _ \<Rightarrow> Inl TypeError)"

text \<open>\<^verbatim>\<open>getDefaultState\<close> (lines 230-232).\<close>

definition getDefaultState :: "'s world \<Rightarrow> class_ref \<Rightarrow> error + ('s \<times> 's world)" where
  "getDefaultState w cid =
     and_then (getMetaInstance w cid) (\<lambda>(meta, w1). Inr (Meta_getDefaultState meta, w1))"

text \<open>The callback of \<^verbatim>\<open>mutations.reduce\<close> (lines 194-204): the \<^verbatim>\<open>switch\<close> on
  \<^verbatim>\<open>action.type\<close>, first matching case first.\<close>

definition reducer_step :: "constants \<Rightarrow> 's Meta \<Rightarrow> 's \<Rightarrow> mutation \<Rightarrow> error + 's" where
  "reducer_step c meta st action =
     (if mut_type action = CREATE c then Meta_insert meta st (mut_payload action)
      else if mut_type action = UPDATE c then
        and_then (property_of (mut_payload action) ''idArr'') (\<lambda>idArr.
        and_then (property_of (mut_payload action) ''updater'') (\<lambda>updater.
          Meta_update meta st idArr updater))
      else if mut_type action = DELETE c then Meta_delete meta st (mut_payload action)
      else Inr st)"

text \<open>\<^verbatim>\<open>Array.prototype.reduce\<close> with an initial value; an exception of the callback
  ends it.\<close>

fun reduce :: "constants \<Rightarrow> 's Meta \<Rightarrow> 's \<Rightarrow> mutation list \<Rightarrow> error + 's" where
  "reduce c meta st [] = Inr st"
| "reduce c meta st (action # actions) =
     and_then (reducer_step c meta st action) (\<lambda>st'. reduce c meta st' actions)"

text \<open>\<^verbatim>\<open>getNextState\<close> (lines 185-206). \<^verbatim>\<open>this.state\<close> is read for the guard and
  again for the initial accumulator; nothing in between writes to the session, so
  the value read for the guard stands for both.\<close>

definition getNextState :: "constants \<Rightarrow> 's world \<Rightarrow> class_ref \<Rightarrow> error + ('s \<times> 's world)" where
  "getNextState c w cid =
     and_then (state w cid) (\<lambda>(st, w1).
       case st of
         None \<Rightarrow> getDefaultState w1 cid
       | Some st0 \<Rightarrow>
           and_then (getMetaInstance w1 cid) (\<lambda>(meta, w2).
           and_then (getMutationsFor w2 cid) (\<lambda>(mutations, w3).
           and_then (reduce c meta st0 mutations) (\<lambda>st'. Inr (st', w3)))))"

text \<open>\<^verbatim>\<open>connect\<close> (lines 306-312). The guard is \<^verbatim>\<open>!session instanceof Session\<close>,
  which JavaScript reads as \<^verbatim>\<open>(!session) instanceof Session\<close>.\<close>

definition connect :: "'s world \<Rightarrow> class_ref \<Rightarrow> jsval \<Rightarrow> error + 's world" where
  "connect w cid x =
     (if instanceof_Session (JBool (\<not> truthy x))
      then Inl (Error ''A model can only connect to a Session instance.'')
      else Inr (set_class w cid ((classes w cid)\<lparr>u_session := x\<rparr>)))"

text \<open>\<^verbatim>\<open>static addMutation\<close> (lines 328-331): the record's \<^verbatim>\<open>meta\<close> is overwritten
  with the class's name, then the record goes to the class's session.\<close>

definition session_addMutation :: "'s world \<Rightarrow> jsval \<Rightarrow> mutation \<Rightarrow> error + 's world" where
  "session_addMutation w sess m =
     (case sess of
        JSession a \<Rightarrow>
          and_then (Session_addMutation (sessions w a) m) (\<lambda>s'.
            Inr (w\<lparr>sessions := (sessions w)(a := s')\<rparr>))
      | _ \<Rightarrow> Inl TypeError)"

definition addMutation :: "'s world \<Rightarrow> class_ref \<Rightarrow> mutation \<Rightarrow> error + 's world" where
  "addMutation w cid m =
     and_then (getName w cid) (\<lambda>(n, w1).
       session_addMutation w1 (session w1 cid) (m\<lparr>mut_meta_name := n\<rparr>))"

text \<open>\<^verbatim>\<open>getManyToManyModels\<close> (lines 108-145). A generated class is represented by what
  its two static members return: \<^verbatim>\<open>fields\<close> (lines 126-131, an object literal with
  two computed keys) and \<^verbatim>\<open>getMetaOptions()\<close> (lines 133-137). The class it
  extends, \<^verbatim>\<open>getThroughModelClass()\<close>, contributes to neither.\<close>

record ThroughModel =
  Through_fields :: "(string \<times> FieldInstance) list"
  Through_getMetaOptions :: "(string \<times> jsval) list"

definition Through :: "utils \<Rightarrow> string \<Rightarrow> string \<Rightarrow> string \<Rightarrow> ThroughModel" where
  "Through u thisModelName fieldName relatedModelName =
     (let fromFieldName = m2mFromFieldName u thisModelName;
          toFieldName = m2mToFieldName u relatedModelName
      in \<lparr>Through_fields =
            obj_put (obj_put [] fromFieldName (ForeignKey thisModelName))
              toFieldName (ForeignKey relatedModelName),
          Through_getMetaOptions = [(''name'', JStr (m2mName u thisModelName fieldName))]\<rparr>)"

text \<open>The \<^verbatim>\<open>forOwn\<close> loop over the declared fields, pushing onto \<^verbatim>\<open>models\<close>.\<close>

fun forOwn_fields :: "utils \<Rightarrow> string \<Rightarrow> (string \<times> FieldInstance) list \<Rightarrow>
    ThroughModel list \<Rightarrow> ThroughModel list" where
  "forOwn_fields u thisModelName [] models = models"
| "forOwn_fields u thisModelName ((fieldName, fieldInstance) # rest) models =
     forOwn_fields u thisModelName rest
       (case fieldInstance of
          ManyToMany related through \<Rightarrow>
            models @ [Through u thisModelName fieldName
                        (if related = ''this'' then thisModelName else related)]
        | _ \<Rightarrow> models)"

definition getManyToManyModels :: "utils \<Rightarrow> 's world \<Rightarrow> class_ref \<Rightarrow>
    error + (ThroughModel list \<times> 's world)" where
  "getManyToManyModels u w cid =
     and_then (getName w cid) (\<lambda>(thisModelName, w1).
       Inr (forOwn_fields u thisModelName (class_fields (classes w1 cid)) [], w1))"


section \<open>Instances of Model\<close>

text \<open>
  An instance holds its class (\<^verbatim>\<open>this.constructor\<close>, returned by \<^verbatim>\<open>getClass()\<close>),
  \<^verbatim>\<open>_fieldNames\<close>, \<^verbatim>\<open>_fields\<close> and the accessor properties that the constructor
  defines on it. The accessor of a plain field (lines 68-82) is a pair of closures
  over the field's value, the session the class had when the instance was made, the
  id attribute and the model's name. The accessors of declared and virtual fields
  come from \<^verbatim>\<open>fieldInstance.getGetter\<close> and \<^verbatim>\<open>getSetter\<close> of fields.js, which is
  not among the sources: only their presence is recorded. Property names that
  collide with the instance's own members (\<^verbatim>\<open>_fields\<close>, \<^verbatim>\<open>_fieldNames\<close>, the
  methods of the prototype) are not represented.
\<close>

datatype accessor =
    PlainAccessor jsval jsval string string
  | FieldAccessor FieldInstance

record Model =
  getClass :: class_ref
  u_fieldNames :: "string list"
  u_fields :: "(string \<times> jsval) list"
  accessors :: "(string \<times> accessor) list"

text \<open>\<^verbatim>\<open>_initFields\<close> (lines 46-85); \<open>props\<close> is an object, so its keys are distinct.\<close>

definition initFields :: "'s world \<Rightarrow> class_ref \<Rightarrow> (string \<times> jsval) list \<Rightarrow>
    error + (Model \<times> 's world)" where
  "initFields w cid props =
     and_then (getName w cid) (\<lambda>(modelName, w1).
     and_then (getMetaInstance w1 cid) (\<lambda>(meta, w2).
       let idAttribute = Meta_idAttribute meta;
           sess = session w2 cid;
           fieldsAssigned = map fst (class_fields (classes w2 cid));
           declared = map (\<lambda>(fieldName, fieldInstance). (fieldName, FieldAccessor fieldInstance))
                        (class_fields (classes w2 cid));
           plain = map (\<lambda>(fieldName, fieldValue).
                          (fieldName, PlainAccessor fieldValue sess idAttribute modelName))
                     (filter (\<lambda>(fieldName, fieldValue). fieldName \<notin> set fieldsAssigned) props)
       in Inr (\<lparr>getClass = cid, u_fieldNames = map fst props, u_fields = props,
                accessors = declared @ plain\<rparr>, w2)))"

text \<open>\<^verbatim>\<open>_initVirtualFields\<close> (lines 34-44). The accessors defined before are not
  configurable, so defining one of them again throws a TypeError.\<close>

fun initVirtualFields :: "(string \<times> FieldInstance) list \<Rightarrow> Model \<Rightarrow> error + Model" where
  "initVirtualFields [] this = Inr this"
| "initVirtualFields ((fieldName, fieldInstance) # rest) this =
     (if fieldName \<in> fst ` set (accessors this) then Inl TypeError
      else initVirtualFields rest
             (this\<lparr>accessors := accessors this @ [(fieldName, FieldAccessor fieldInstance)]\<rparr>))"

text \<open>The constructor (lines 28-32).\<close>

definition new_Model :: "'s world \<Rightarrow> class_ref \<Rightarrow> (string \<times> jsval) list \<Rightarrow>
    error + (Model \<times> 's world)" where
  "new_Model w cid props =
     and_then (initFields w cid props) (\<lambda>(this, w1).
     and_then (initVirtualFields (class_virtualFields (classes w1 cid)) this) (\<lambda>this'.
       Inr (this', w1)))"

text \<open>\<^verbatim>\<open>getId\<close> (lines 348-350).\<close>

definition getId :: "'s world \<Rightarrow> Model \<Rightarrow> error + (jsval \<times> 's world)" where
  "getId w this =
     and_then (getMetaInstance w (getClass this)) (\<lambda>(meta, w1).
       Inr (obj_get (u_fields this) (Meta_idAttribute meta), w1))"

text \<open>Reading a property of an instance: an accessor the constructor defined, else
  \<^verbatim>\<open>undefined\<close>. What the getter of a declared or virtual field returns is the
  parameter \<open>field_get\<close>.\<close>

definition read_property :: "('s world \<Rightarrow> Model \<Rightarrow> FieldInstance \<Rightarrow> string \<Rightarrow> jsval) \<Rightarrow>
    's world \<Rightarrow> Model \<Rightarrow> string \<Rightarrow> jsval" where
  "read_property field_get w this k =
     (case map_of (accessors this) k of
        None \<Rightarrow> JUndefined
      | Some (PlainAccessor fieldValue sess idAttribute modelName) \<Rightarrow> fieldValue
      | Some (FieldAccessor fieldInstance) \<Rightarrow> field_get w this fieldInstance k)"

text \<open>The setter of a plain field (lines 70-81), with what the closure captured as
  arguments. The instance is returned as it is left.\<close>

definition plain_setter :: "constants \<Rightarrow> jsval \<Rightarrow> string \<Rightarrow> string \<Rightarrow> string \<Rightarrow>
    's world \<Rightarrow> Model \<Rightarrow> jsval \<Rightarrow> error + (Model \<times> 's world)" where
  "plain_setter c sess idAttribute modelName fieldName w this v =
     (case sess of
        JUndefined \<Rightarrow> Inl TypeError
      | JNull \<Rightarrow> Inl TypeError
      | _ \<Rightarrow>
          and_then (getId w this) (\<lambda>(i, w1).
          and_then (session_addMutation w1 sess
                      \<lparr>mut_type = UPDATE c,
                       mut_payload = JObj (obj_put (obj_put [] idAttribute i) fieldName v),
                       mut_meta_name = modelName\<rparr>) (\<lambda>w2.
            Inr (this, w2))))"

text \<open>The assignment \<^verbatim>\<open>instance[fieldName] = v\<close> for a plain field; \<open>None\<close> when the
  instance has no plain accessor of that name.\<close>

definition assign_plain :: "constants \<Rightarrow> 's world \<Rightarrow> Model \<Rightarrow> string \<Rightarrow> jsval \<Rightarrow>
    (error + (Model \<times> 's world)) option" where
  "assign_plain c w this fieldName v =
     (case map_of (accessors this) fieldName of
        Some (PlainAccessor fieldValue sess idAttribute modelName) \<Rightarrow>
          Some (plain_setter c sess idAttribute modelName fieldName w this v)
      | _ \<Rightarrow> None)"

text \<open>\<^verbatim>\<open>equals\<close> (lines 365-367); \<^verbatim>\<open>&&\<close> evaluates its right side only when the
  left side holds.\<close>

definition equals :: "'s world \<Rightarrow> Model \<Rightarrow> Model \<Rightarrow> error + (bool \<times> 's world)" where
  "equals w this otherModel =
     (if getClass this = getClass otherModel then
        and_then (getId w this) (\<lambda>(i, w1).
        and_then (getId w1 otherModel) (\<lambda>(j, w2).
          Inr (strict_equals i j, w2)))
      else Inr (False, w))"

text \<open>\<^verbatim>\<open>update\<close> (lines 400-411): the argument object is built first (\<^verbatim>\<open>getId\<close>,
  then \<^verbatim>\<open>getName\<close>), then the class's \<^verbatim>\<open>addMutation\<close> is called.\<close>

definition update :: "constants \<Rightarrow> 's world \<Rightarrow> Model \<Rightarrow> jsval \<Rightarrow> error + (Model \<times> 's world)" where
  "update c w this mergeObj =
     and_then (getId w this) (\<lambda>(i, w1).
     and_then (getName w1 (getClass this)) (\<lambda>(n, w2).
     and_then (addMutation w2 (getClass this)
                 \<lparr>mut_type = UPDATE c,
                  mut_payload = JObj [(''idArr'', JArr [i]), (''updater'', mergeObj)],
                  mut_meta_name = n\<rparr>) (\<lambda>w3.
       Inr (this, w3))))"

text \<open>\<^verbatim>\<open>set\<close> (lines 391-393); the name \<open>set\<close> is taken by the list library.\<close>

definition set_property :: "constants \<Rightarrow> 's world \<Rightarrow> Model \<Rightarrow> string \<Rightarrow> jsval \<Rightarrow>
    error + (Model \<times> 's world)" where
  "set_property c w this propertyName v = update c w this (JObj [(propertyName, v)])"

text \<open>\<^verbatim>\<open>delete\<close> (lines 417-425). \<^verbatim>\<open>this.session\<close> is a property of the instance:
  the static getter \<^verbatim>\<open>session\<close> belongs to the class and is not inherited by
  instances. The method \<^verbatim>\<open>addMutation\<close> is looked up on that value before the
  argument is built.\<close>

definition delete :: "constants \<Rightarrow> ('s world \<Rightarrow> Model \<Rightarrow> FieldInstance \<Rightarrow> string \<Rightarrow> jsval) \<Rightarrow>
    's world \<Rightarrow> Model \<Rightarrow> error + (Model \<times> 's world)" where
  "delete c field_get w this =
     (case read_property field_get w this ''session'' of
        JUndefined \<Rightarrow> Inl TypeError
      | JNull \<Rightarrow> Inl TypeError
      | sess \<Rightarrow>
          and_then (getId w this) (\<lambda>(i, w1).
          and_then (getName w1 (getClass this)) (\<lambda>(n, w2).
          and_then (session_addMutation w2 sess
                      \<lparr>mut_type = DELETE c, mut_payload = JArr [i], mut_meta_name = n\<rparr>) (\<lambda>w3.
            Inr (this, w3)))))"


section \<open>The branch algebra of the specification\<close>

text \<open>Modelled from the spec: the Meta class (\<^verbatim>\<open>src/Meta.js\<close> is not among the
  sources). Section 3: a branch is the ordered \<^verbatim>\<open>idArray\<close> and the mapping
  \<^verbatim>\<open>itemsById\<close> from id to record. Section 4.2: \<^verbatim>\<open>defaultState\<close> is the empty
  branch; \<^verbatim>\<open>insert\<close> assigns a fresh integer id when the payload has none, fails with
  DuplicateIdError when the id exists, and appends otherwise; \<^verbatim>\<open>update\<close> merges the
  updater field by field into every selected record that is present and skips the
  others; \<^verbatim>\<open>delete\<close> removes the selected ids from both parts and skips absent
  ones. An id selector is one id or a collection of ids. The spec leaves the
  numbering of fresh ids open (here: the least natural number above every integer id
  of the branch); an updater that is a function is not represented.\<close>

record Branch =
  idArray :: "jsval list"
  itemsById :: "(jsval \<times> (string \<times> jsval) list) list"

definition defaultState :: Branch where
  "defaultState = \<lparr>idArray = [], itemsById = []\<rparr>"

definition record_of :: "jsval \<Rightarrow> (string \<times> jsval) list" where
  "record_of v = (case v of JObj kvs \<Rightarrow> kvs | _ \<Rightarrow> [])"

definition ids_of :: "jsval \<Rightarrow> jsval list" where
  "ids_of idSelector = (case idSelector of JArr ids \<Rightarrow> ids | i \<Rightarrow> [i])"

definition fresh_id :: "Branch \<Rightarrow> jsval" where
  "fresh_id b = JNum (foldl (\<lambda>n i. case i of JNum k \<Rightarrow> max n (k + 1) | _ \<Rightarrow> n) 0 (idArray b))"

definition merge_record :: "(string \<times> jsval) list \<Rightarrow> (string \<times> jsval) list \<Rightarrow>
    (string \<times> jsval) list" where
  "merge_record r updater = foldl (\<lambda>acc (k, v). obj_put acc k v) r updater"

definition Branch_insert :: "string \<Rightarrow> Branch \<Rightarrow> jsval \<Rightarrow> error + Branch" where
  "Branch_insert idAttribute b payload =
     (let r = (case map_of (record_of payload) idAttribute of
                 Some i \<Rightarrow> record_of payload
               | None \<Rightarrow> obj_put (record_of payload) idAttribute (fresh_id b));
          i = obj_get r idAttribute
      in if i \<in> fst ` set (itemsById b) then Inl DuplicateIdError
         else Inr \<lparr>idArray = idArray b @ [i], itemsById = itemsById b @ [(i, r)]\<rparr>)"

definition Branch_update :: "Branch \<Rightarrow> jsval \<Rightarrow> jsval \<Rightarrow> error + Branch" where
  "Branch_update b idSelector updater =
     Inr (b\<lparr>itemsById :=
            map (\<lambda>(i, r). if i \<in> set (ids_of idSelector)
                           then (i, merge_record r (record_of updater)) else (i, r))
              (itemsById b)\<rparr>)"

definition Branch_delete :: "Branch \<Rightarrow> jsval \<Rightarrow> error + Branch" where
  "Branch_delete b idSelector =
     Inr \<lparr>idArray = filter (\<lambda>i. i \<notin> set (ids_of idSelector)) (idArray b),
          itemsById = filter (\<lambda>(i, r). i \<notin> set (ids_of idSelector)) (itemsById b)\<rparr>"

definition spec_Meta :: "string \<Rightarrow> string \<Rightarrow> Branch Meta" where
  "spec_Meta n idAttribute =
     \<lparr>Meta_name = n, Meta_idAttribute = idAttribute, Meta_getDefaultState = defaultState,
      Meta_insert = Branch_insert idAttribute, Meta_update = Branch_update,
      Meta_delete = Branch_delete\<rparr>"


section \<open>The mutation log as the specification describes it\<close>

text \<open>Section 3 of the spec: a mutation record is a tagged variant, Create with a
  payload, Update with an id selector and an updater, Delete with an id selector,
  together with the name of the entity it targets. \<open>record_for\<close> is the object that
  stands for it in the log (an Update as \<^verbatim>\<open>update\<close>, lines 401-410, writes it);
  \<open>spec_apply\<close> sends each tag to its operation of the branch algebra and
  \<open>spec_fold\<close> applies a sequence in order.\<close>

datatype spec_mutation =
    Create jsval
  | Update jsval jsval
  | Delete jsval

fun record_for :: "constants \<Rightarrow> string \<times> spec_mutation \<Rightarrow> mutation" where
  "record_for c (n, Create p) = \<lparr>mut_type = CREATE c, mut_payload = p, mut_meta_name = n\<rparr>"
| "record_for c (n, Update idArr updater) =
     \<lparr>mut_type = UPDATE c,
      mut_payload = JObj [(''idArr'', idArr), (''updater'', updater)],
      mut_meta_name = n\<rparr>"
| "record_for c (n, Delete ids) = \<lparr>mut_type = DELETE c, mut_payload = ids, mut_meta_name = n\<rparr>"

fun spec_apply :: "'s Meta \<Rightarrow> 's \<Rightarrow> spec_mutation \<Rightarrow> error + 's" where
  "spec_apply meta st (Create p) = Meta_insert meta st p"
| "spec_apply meta st (Update idArr updater) = Meta_update meta st idArr updater"
| "spec_apply meta st (Delete ids) = Meta_delete meta st ids"

fun spec_fold :: "'s Meta \<Rightarrow> 's \<Rightarrow> spec_mutation list \<Rightarrow> error + 's" where
  "spec_fold meta st [] = Inr st"
| "spec_fold meta st (m # ms) = and_then (spec_apply meta st m) (\<lambda>st'. spec_fold meta st' ms)"

text \<open>The subsequence of a tagged log that targets one entity.\<close>

definition targeting :: "string \<Rightarrow> (string \<times> spec_mutation) list \<Rightarrow> spec_mutation list" where
  "targeting n tagged = map snd (filter (\<lambda>(n', m). n' = n) tagged)"

text \<open>The through-entities a class's declaration calls for: one per many-to-many
  field, in declaration order, each with the name of the field and the target
  entity, the marker \<^verbatim>\<open>this\<close> standing for the declaring entity.\<close>

definition target_of :: "string \<Rightarrow> string \<Rightarrow> string" where
  "target_of A B = (if B = ''this'' then A else B)"

fun declared_m2m :: "string \<Rightarrow> (string \<times> FieldInstance) list \<Rightarrow> (string \<times> string) list" where
  "declared_m2m A [] = []"
| "declared_m2m A ((F, fi) # fs) =
     (case fi of ManyToMany B through \<Rightarrow> [(F, target_of A B)] | _ \<Rightarrow> []) @
     declared_m2m A fs"

definition spec_through :: "utils \<Rightarrow> string \<Rightarrow> string \<times> string \<Rightarrow> ThroughModel" where
  "spec_through u A FB =
     \<lparr>Through_fields =
        [(m2mFromFieldName u A, ForeignKey A), (m2mToFieldName u (snd FB), ForeignKey (snd FB))],
      Through_getMetaOptions = [(''name'', JStr (m2mName u A (fst FB)))]\<rparr>"

definition from_to_distinct :: "utils \<Rightarrow> string \<Rightarrow> (string \<times> FieldInstance) list \<Rightarrow> bool" where
  "from_to_distinct u A fs =
     list_all (\<lambda>FB. m2mFromFieldName u A \<noteq> m2mToFieldName u (snd FB)) (declared_m2m A fs)"


section \<open>A small schema to run the definitions on\<close>

definition K :: constants where
  "K = \<lparr>CREATE = ''CREATE'', UPDATE = ''UPDATE'', DELETE = ''DELETE''\<rparr>"

definition naming :: utils where
  "naming = spec_utils (\<lambda>A F. A @ F) (\<lambda>A. A @ ''Id'')"

definition Book :: "Branch ModelClass" where
  "Book = \<lparr>class_fields = [(''tags'', ManyToMany ''Tag'' None), (''related'', ManyToMany ''this'' None),
                           (''author'', ForeignKey ''Author'')],
           class_virtualFields = [],
           newMeta = Inr (spec_Meta ''Book'' ''id''),
           u_meta = None,
           u_session = JUndefined\<rparr>"

definition row1 :: "(string \<times> jsval) list" where
  "row1 = [(''id'', JNum 1), (''name'', JStr ''a'')]"

definition row2 :: "(string \<times> jsval) list" where
  "row2 = [(''id'', JNum 2), (''name'', JStr ''b'')]"

definition books :: Branch where
  "books = \<lparr>idArray = [JNum 1, JNum 2], itemsById = [(JNum 1, row1), (JNum 2, row2)]\<rparr>"

definition open_session :: "(string \<times> Branch) list \<Rightarrow> mutation list \<Rightarrow> Branch Session" where
  "open_session root log =
     \<lparr>Session_state = root, Session_mutations = log, Session_finalized = False,
      Session_schemas = [''Book'', ''Tag'']\<rparr>"

text \<open>One class, \<open>Book\<close>, connected to the session at address 0.\<close>

definition world_of :: "Branch Session \<Rightarrow> Branch world" where
  "world_of s = \<lparr>classes = (\<lambda>cid. Book\<lparr>u_session := JSession 0\<rparr>), sessions = (\<lambda>a. s)\<rparr>"

text \<open>The world in which exactly the record \<open>m\<close> has been appended to the log of the
  session at address \<open>a\<close>.\<close>

definition append_mutation :: "'s world \<Rightarrow> addr \<Rightarrow> mutation \<Rightarrow> 's world" where
  "append_mutation w a m =
     w\<lparr>sessions := (sessions w)
         (a := (sessions w a)\<lparr>Session_mutations := Session_mutations (sessions w a) @ [m]\<rparr>)\<rparr>"

text \<open>Logs: an update and a delete of row 1 with a record for another entity in
  between; the same two with a different record for the other entity in front; one
  Create; one record of a type the fold does not know.\<close>

definition log_B :: "(string \<times> spec_mutation) list" where
  "log_B = [(''Book'', Update (JArr [JNum 1]) (JObj [(''name'', JStr ''c'')])),
            (''Tag'', Create (JObj [(''id'', JNum 7)])),
            (''Book'', Delete (JArr [JNum 1]))]"

definition log_B2 :: "(string \<times> spec_mutation) list" where
  "log_B2 = [(''Tag'', Delete (JArr [JNum 7])),
             (''Book'', Update (JArr [JNum 1]) (JObj [(''name'', JStr ''c'')])),
             (''Book'', Delete (JArr [JNum 1]))]"

definition log_create :: "(string \<times> spec_mutation) list" where
  "log_create = [(''Book'', Create (JObj row1))]"

definition log_unknown :: "mutation list" where
  "log_unknown =
     [\<lparr>mut_type = ''ORDER'', mut_payload = JUndefined, mut_meta_name = ''Book''\<rparr>]"

text \<open>The same class with its Meta instance already created.\<close>

definition world_cached :: "Branch Session \<Rightarrow> Branch world" where
  "world_cached s =
     \<lparr>classes = (\<lambda>cid. Book\<lparr>u_meta := Some (spec_Meta ''Book'' ''id''), u_session := JSession 0\<rparr>),
      sessions = (\<lambda>a. s)\<rparr>"

text \<open>A session with rows 1 and 2 and an empty log; the instance that
  \<^verbatim>\<open>new Book(props)\<close> builds in it; a second snapshot of row 1; the record the
  setter of the plain field \<^verbatim>\<open>name\<close> appends for \<^verbatim>\<open>book.name = 'c'\<close>.\<close>

definition w0 :: "Branch world" where
  "w0 = world_of (open_session [(''Book'', books)] [])"

definition book_accessors :: "(string \<times> jsval) list \<Rightarrow> (string \<times> accessor) list" where
  "book_accessors props =
     [(''tags'', FieldAccessor (ManyToMany ''Tag'' None)),
      (''related'', FieldAccessor (ManyToMany ''this'' None)),
      (''author'', FieldAccessor (ForeignKey ''Author''))] @
     map (\<lambda>(k, v). (k, PlainAccessor v (JSession 0) ''id'' ''Book'')) props"

definition book_instance :: "(string \<times> jsval) list \<Rightarrow> Model" where
  "book_instance props =
     \<lparr>getClass = 0, u_fieldNames = map fst props, u_fields = props,
      accessors = book_accessors props\<rparr>"

definition row1_stale :: "(string \<times> jsval) list" where
  "row1_stale = [(''id'', JNum 1), (''name'', JStr ''old'')]"

definition stray_update :: mutation where
  "stray_update =
     \<lparr>mut_type = ''UPDATE'',
      mut_payload = JObj [(''id'', JNum 1), (''name'', JStr ''c'')],
      mut_meta_name = ''Book''\<rparr>"


section \<open>Basic facts\<close>

lemma and_then_Inr: "and_then (Inr x) f = f x"
  by (simp add: and_then_def)

lemma getMetaInstance_again:
  assumes "getMetaInstance w cid = Inr (meta, w1)"
  shows "getMetaInstance w1 cid = Inr (meta, w1)"
  using assms
  by (auto simp: getMetaInstance_def set_class_def and_then_def split: option.splits sum.splits)

lemma getMetaInstance_frame:
  assumes "getMetaInstance w cid = Inr (meta, w1)"
  shows "sessions w1 = sessions w" and "session w1 cid' = session w cid'"
    and "class_fields (classes w1 cid') = class_fields (classes w cid')"
    and "class_virtualFields (classes w1 cid') = class_virtualFields (classes w cid')"
  using assms
  by (auto simp: getMetaInstance_def set_class_def session_def and_then_def split: option.splits sum.splits)

lemma getName_eq:
  assumes "getMetaInstance w cid = Inr (meta, w1)"
  shows "getName w cid = Inr (Meta_name meta, w1)"
  using assms by (simp add: getName_def and_then_def)

lemma getId_eq:
  assumes "getMetaInstance w (getClass this) = Inr (meta, w1)"
  shows "getId w this = Inr (obj_get (u_fields this) (Meta_idAttribute meta), w1)"
  using assms by (simp add: getId_def and_then_def)

lemma getNextState_unfold:
  assumes M: "getMetaInstance w cid = Inr (meta, w1)"
    and S: "session w cid = JSession a"
  shows "getNextState c w cid =
    (case Session_getState (sessions w a) (Meta_name meta) of
       None \<Rightarrow> Inr (Meta_getDefaultState meta, w1)
     | Some st0 \<Rightarrow>
         and_then (reduce c meta st0 (Session_getMutationsFor (sessions w a) (Meta_name meta)))
           (\<lambda>st'. Inr (st', w1)))"
proof -
  note M1 = getMetaInstance_again [OF M]
  note F = getMetaInstance_frame [OF M]
  have st: "state w cid = Inr (Session_getState (sessions w a) (Meta_name meta), w1)"
    by (simp add: state_def S getName_eq [OF M] and_then_Inr F)
  have S1: "session w1 cid = JSession a"
    by (simp add: F S)
  have mu: "getMutationsFor w1 cid =
      Inr (Session_getMutationsFor (sessions w a) (Meta_name meta), w1)"
    by (simp add: getMutationsFor_def S F getName_eq [OF M1] and_then_Inr)
  show ?thesis
    by (simp add: getNextState_def st and_then_Inr getDefaultState_def M1 mu split: option.splits)
qed

lemma reduce_append:
  "reduce c meta st (xs @ ys) = and_then (reduce c meta st xs) (\<lambda>st'. reduce c meta st' ys)"
  by (induction xs arbitrary: st) (auto simp: and_then_def split: sum.splits)

lemma reducer_step_record_for:
  assumes "distinct [CREATE c, UPDATE c, DELETE c]"
  shows "reducer_step c meta st (record_for c (n, m)) = spec_apply meta st m"
  using assms by (cases m) (auto simp: reducer_step_def and_then_def obj_get_def)

lemma reduce_record_for:
  assumes "distinct [CREATE c, UPDATE c, DELETE c]"
  shows "reduce c meta st (map (record_for c) xs) = spec_fold meta st (map snd xs)"
proof (induction xs arbitrary: st)
  case Nil
  show ?case by simp
next
  case (Cons x xs)
  obtain n m where x: "x = (n, m)" by (cases x)
  show ?case
    by (simp add: x reducer_step_record_for [OF assms] Cons.IH)
qed

lemma mut_meta_name_record_for: "mut_meta_name (record_for c (n, m)) = n"
  by (cases m) simp_all

lemma getMutationsFor_record_for:
  "filter (\<lambda>r. mut_meta_name r = N) (map (record_for c) tagged) =
   map (record_for c) (filter (\<lambda>(n, m). n = N) tagged)"
  by (induction tagged) (auto simp: mut_meta_name_record_for)

lemma log_append_mutation:
  "Session_mutations (sessions (append_mutation w a m) a) = Session_mutations (sessions w a) @ [m]"
  by (simp add: append_mutation_def)

lemma addMutation_eq:
  assumes M: "getMetaInstance w cid = Inr (meta, w)"
    and S: "session w cid = JSession a"
    and O: "\<not> Session_finalized (sessions w a)"
    and N: "Meta_name meta \<in> set (Session_schemas (sessions w a))"
  shows "addMutation w cid m = Inr (append_mutation w a (m\<lparr>mut_meta_name := Meta_name meta\<rparr>))"
  by (simp add: addMutation_def getName_eq [OF M] and_then_def S session_addMutation_def
      Session_addMutation_def O N append_mutation_def)

lemma Through_distinct:
  assumes "m2mFromFieldName u A \<noteq> m2mToFieldName u B"
  shows "Through u A F B = spec_through u A (F, B)"
  using assms by (simp add: Through_def spec_through_def Let_def)

lemma forOwn_fields_eq:
  assumes "from_to_distinct u A fs"
  shows "forOwn_fields u A fs models = models @ map (spec_through u A) (declared_m2m A fs)"
  using assms
proof (induction fs arbitrary: models)
  case Nil
  show ?case by simp
next
  case (Cons x fs)
  obtain F fi where x: "x = (F, fi)"
    by (cases x)
  from Cons.prems have rest: "from_to_distinct u A fs"
    by (simp add: from_to_distinct_def x)
  show ?case
  proof (cases fi)
    case (ManyToMany B through)
    with Cons.prems have "m2mFromFieldName u A \<noteq> m2mToFieldName u (target_of A B)"
      by (simp add: from_to_distinct_def x)
    then have "Through u A F (target_of A B) = spec_through u A (F, target_of A B)"
      by (rule Through_distinct)
    then show ?thesis
      using Cons.IH [OF rest] by (simp add: x ManyToMany target_of_def)
  next
    case Attribute
    then show ?thesis
      using Cons.IH [OF rest] by (simp add: x)
  next
    case (ForeignKey B)
    then show ?thesis
      using Cons.IH [OF rest] by (simp add: x)
  qed
qed

lemma spec_utils_from_to:
  "m2mFromFieldName (spec_utils through_name of_name) A \<noteq>
   m2mToFieldName (spec_utils through_name of_name) B"
  by (simp add: spec_utils_def)

lemma from_to_distinct_spec_utils:
  "from_to_distinct (spec_utils through_name of_name) A fs"
  by (simp add: from_to_distinct_def list_all_iff spec_utils_from_to)

lemma spec_through_two_fields:
  assumes "m2mFromFieldName u A \<noteq> m2mToFieldName u (snd FB)"
  shows "length (Through_fields (spec_through u A FB)) = 2 \<and>
    distinct (map fst (Through_fields (spec_through u A FB)))"
  using assms by (simp add: spec_through_def)

lemma delete_without_session_property:
  assumes "map_of (accessors this) ''session'' = None"
  shows "delete c field_get w this = Inl TypeError"
  using assms by (simp add: delete_def read_property_def)


subsection \<open>The small schema\<close>

lemma Book_meta:
  "getMetaInstance (world_of s) 0 =
     Inr (spec_Meta ''Book'' ''id'',
          set_class (world_of s) 0 ((classes (world_of s) 0)\<lparr>u_meta := Some (spec_Meta ''Book'' ''id'')\<rparr>))"
  by (simp add: getMetaInstance_def world_of_def Book_def and_then_def)

lemma Book_meta_cached:
  "getMetaInstance (world_cached s) 0 = Inr (spec_Meta ''Book'' ''id'', world_cached s)"
  by (simp add: getMetaInstance_def world_cached_def)

lemma new_Model_book_world:
  "new_Model w0 0 row1 =
     Inr (book_instance row1,
          set_class w0 0 ((classes w0 0)\<lparr>u_meta := Some (spec_Meta ''Book'' ''id'')\<rparr>))"
  by (simp add: new_Model_def initFields_def getName_def getMetaInstance_def w0_def world_of_def
      Book_def and_then_def set_class_def spec_Meta_def session_def book_instance_def
      book_accessors_def row1_def Let_def)

lemma reducer_step_stray_update:
  "reducer_step K meta st stray_update = Meta_update meta st JUndefined JUndefined"
  by (simp add: reducer_step_def stray_update_def K_def and_then_def obj_get_def)


section \<open>The next state of a model\<close>

text \<open>
  C1 (as amended). For every model whose current branch state is undefined,
  \<^verbatim>\<open>getNextState()\<close> returns the default branch state of the model's Meta instance
  and nothing else: the guard of lines 186-188 returns before the session's log is
  read, so no mutation, Create or other, is applied. The claim as written (the
  default state with the Create records folded in via \<^verbatim>\<open>insert\<close>) fails: see
  \<open>getNextState_undefined_state_counterexample\<close>, where the log holds a Create for
  row 1 and the returned branch is empty.
\<close>

theorem getNextState_undefined_state:
  assumes "getMetaInstance w cid = Inr (meta, w1)"
    and "session w cid = JSession a"
    and "Session_getState (sessions w a) (Meta_name meta) = None"
  shows "getNextState c w cid = Inr (Meta_getDefaultState meta, w1)"
  by (simp add: getNextState_unfold [OF assms(1,2)] assms(3))

theorem getNextState_undefined_state_witness:
  "map_sum id fst
     (getNextState K (world_of (open_session [] (map (record_for K) log_create))) 0) =
   Inr defaultState"
proof -
  let ?w = "world_of (open_session [] (map (record_for K) log_create))"
  have 2: "session ?w 0 = JSession 0"
    by (simp add: session_def world_of_def)
  have 3: "Session_getState (sessions ?w 0) (Meta_name (spec_Meta ''Book'' ''id'')) = None"
    by (simp add: Session_getState_def world_of_def open_session_def)
  show ?thesis
    unfolding getNextState_undefined_state [OF Book_meta 2 3]
    by (simp add: spec_Meta_def)
qed

theorem getNextState_undefined_state_counterexample:
  "map_sum id fst
     (getNextState K (world_of (open_session [] (map (record_for K) log_create))) 0) =
   Inr defaultState \<and>
   spec_fold (spec_Meta ''Book'' ''id'') (Meta_getDefaultState (spec_Meta ''Book'' ''id''))
     (targeting ''Book'' log_create) =
   Inr \<lparr>idArray = [JNum 1], itemsById = [(JNum 1, row1)]\<rparr> \<and>
   defaultState \<noteq> \<lparr>idArray = [JNum 1], itemsById = [(JNum 1, row1)]\<rparr>"
proof -
  let ?w = "world_of (open_session [] (map (record_for K) log_create))"
  have 2: "session ?w 0 = JSession 0"
    by (simp add: session_def world_of_def)
  have "getNextState K ?w 0 =
      Inr (defaultState,
           set_class ?w 0 ((classes ?w 0)\<lparr>u_meta := Some (spec_Meta ''Book'' ''id'')\<rparr>))"
    unfolding getNextState_unfold [OF Book_meta 2]
    by (simp add: Session_getState_def world_of_def open_session_def spec_Meta_def)
  moreover have "spec_fold (spec_Meta ''Book'' ''id'')
      (Meta_getDefaultState (spec_Meta ''Book'' ''id'')) (targeting ''Book'' log_create) =
      Inr \<lparr>idArray = [JNum 1], itemsById = [(JNum 1, row1)]\<rparr>"
    by (simp add: targeting_def log_create_def spec_Meta_def and_then_def Branch_insert_def
        defaultState_def record_of_def row1_def obj_get_def Let_def)
  moreover have "defaultState \<noteq> \<lparr>idArray = [JNum 1], itemsById = [(JNum 1, row1)]\<rparr>"
    by (simp add: defaultState_def)
  ultimately show ?thesis
    by simp
qed

text \<open>
  C3. For every model with an existing current state \<open>st0\<close> and every log of
  Create, Update and Delete records (for any entities, the three tags being distinct
  strings), \<^verbatim>\<open>getNextState()\<close> is the fold, in log order, of the records that target
  the model over \<open>st0\<close>, a Create going to \<^verbatim>\<open>insert\<close>, an Update to \<^verbatim>\<open>update\<close>
  with its id selector and updater, a Delete to \<^verbatim>\<open>delete\<close>; an exception of the
  branch algebra ends the fold and is the outcome.
\<close>

theorem getNextState_folds_log:
  assumes "getMetaInstance w cid = Inr (meta, w1)"
    and "session w cid = JSession a"
    and "Session_getState (sessions w a) (Meta_name meta) = Some st0"
    and "distinct [CREATE c, UPDATE c, DELETE c]"
    and "Session_mutations (sessions w a) = map (record_for c) tagged"
  shows "getNextState c w cid =
     and_then (spec_fold meta st0 (targeting (Meta_name meta) tagged)) (\<lambda>st'. Inr (st', w1))"
proof -
  have "Session_getMutationsFor (sessions w a) (Meta_name meta) =
      map (record_for c) (filter (\<lambda>(n, m). n = Meta_name meta) tagged)"
    by (simp add: Session_getMutationsFor_def assms(5) getMutationsFor_record_for)
  then show ?thesis
    by (simp add: getNextState_unfold [OF assms(1,2)] assms(3) reduce_record_for [OF assms(4)]
        targeting_def)
qed

theorem getNextState_folds_log_witness:
  "map_sum id fst
     (getNextState K (world_of (open_session [(''Book'', books)] (map (record_for K) log_B))) 0) =
   Inr \<lparr>idArray = [JNum 2], itemsById = [(JNum 2, row2)]\<rparr>"
proof -
  let ?w = "world_of (open_session [(''Book'', books)] (map (record_for K) log_B))"
  have 2: "session ?w 0 = JSession 0"
    by (simp add: session_def world_of_def)
  have 3: "Session_getState (sessions ?w 0) (Meta_name (spec_Meta ''Book'' ''id'')) = Some books"
    by (simp add: Session_getState_def world_of_def open_session_def spec_Meta_def)
  have 4: "distinct [CREATE K, UPDATE K, DELETE K]"
    by (simp add: K_def)
  have 5: "Session_mutations (sessions ?w 0) = map (record_for K) log_B"
    by (simp add: world_of_def open_session_def)
  show ?thesis
    unfolding getNextState_folds_log [OF Book_meta 2 3 4 5]
    by (simp add: targeting_def log_B_def spec_Meta_def and_then_def Branch_update_def
        Branch_delete_def ids_of_def books_def merge_record_def record_of_def row1_def row2_def)
qed

text \<open>
  C4. The outcome of \<^verbatim>\<open>getNextState()\<close>, a branch or an exception, is a function of
  the Meta instance, the current state and the model's mutation subsequence alone:
  two runs that agree on these three give the same outcome, whatever else differs
  (other entities' states and records, the session object, the class, a Meta
  instance already cached or not). In particular a run leaves behind a world in which
  running again gives the same branch and the same world.
\<close>

theorem getNextState_deterministic:
  assumes "getMetaInstance w cid = Inr (meta, w1)"
    and "getMetaInstance v cid' = Inr (meta, v1)"
    and "session w cid = JSession a"
    and "session v cid' = JSession b"
    and "Session_getState (sessions w a) (Meta_name meta) =
         Session_getState (sessions v b) (Meta_name meta)"
    and "Session_getMutationsFor (sessions w a) (Meta_name meta) =
         Session_getMutationsFor (sessions v b) (Meta_name meta)"
  shows "map_sum id fst (getNextState c w cid) = map_sum id fst (getNextState c v cid') \<and>
    (\<forall>st w'. getNextState c w cid = Inr (st, w') \<longrightarrow> getNextState c w' cid = Inr (st, w'))"
proof
  show "map_sum id fst (getNextState c w cid) = map_sum id fst (getNextState c v cid')"
    by (simp add: getNextState_unfold [OF assms(1,3)] getNextState_unfold [OF assms(2,4)]
        assms(5,6) and_then_def split: option.splits sum.splits)
next
  note M1 = getMetaInstance_again [OF assms(1)]
  note F = getMetaInstance_frame [OF assms(1)]
  have S1: "session w1 cid = JSession a"
    by (simp add: F assms(3))
  have same: "getNextState c w1 cid = getNextState c w cid"
    unfolding getNextState_unfold [OF M1 S1] getNextState_unfold [OF assms(1,3)] F(1) ..
  have "w' = w1" if "getNextState c w cid = Inr (st, w')" for st w'
    using that
    by (auto simp: getNextState_unfold [OF assms(1,3)] and_then_def
        split: option.splits sum.splits)
  with same show "\<forall>st w'. getNextState c w cid = Inr (st, w') \<longrightarrow>
      getNextState c w' cid = Inr (st, w')"
    by auto
qed

theorem getNextState_deterministic_witness:
  "map_sum id fst
     (getNextState K (world_of (open_session [(''Book'', books)] (map (record_for K) log_B))) 0) =
   map_sum id fst
     (getNextState K
        (world_cached (open_session [(''Tag'', defaultState), (''Book'', books)]
           (map (record_for K) log_B2))) 0)"
proof -
  let ?w = "world_of (open_session [(''Book'', books)] (map (record_for K) log_B))"
  let ?v = "world_cached (open_session [(''Tag'', defaultState), (''Book'', books)]
           (map (record_for K) log_B2))"
  have 3: "session ?w 0 = JSession 0"
    by (simp add: session_def world_of_def)
  have 4: "session ?v 0 = JSession 0"
    by (simp add: session_def world_cached_def)
  have 5: "Session_getState (sessions ?w 0) (Meta_name (spec_Meta ''Book'' ''id'')) =
      Session_getState (sessions ?v 0) (Meta_name (spec_Meta ''Book'' ''id''))"
    by (simp add: Session_getState_def world_of_def world_cached_def open_session_def spec_Meta_def)
  have 6: "Session_getMutationsFor (sessions ?w 0) (Meta_name (spec_Meta ''Book'' ''id'')) =
      Session_getMutationsFor (sessions ?v 0) (Meta_name (spec_Meta ''Book'' ''id''))"
    by (simp add: Session_getMutationsFor_def world_of_def world_cached_def open_session_def
        spec_Meta_def log_B_def log_B2_def)
  show ?thesis
    by (rule conjunct1 [OF getNextState_deterministic [OF Book_meta Book_meta_cached 3 4 5 6]])
qed

text \<open>
  C9. For every state and every mutation record whose type is none of
  \<^verbatim>\<open>CREATE\<close>, \<^verbatim>\<open>UPDATE\<close>, \<^verbatim>\<open>DELETE\<close>, the step of the fold returns the state
  unchanged and throws nothing; such a record can be dropped from any log without
  changing the outcome of the fold.
\<close>

theorem reducer_step_unknown_type:
  assumes "mut_type action \<noteq> CREATE c"
    and "mut_type action \<noteq> UPDATE c"
    and "mut_type action \<noteq> DELETE c"
  shows "reducer_step c meta st action = Inr st \<and>
    reduce c meta st (before @ [action] @ after) = reduce c meta st (before @ after)"
proof -
  have step: "reducer_step c meta st' action = Inr st'" for st'
    using assms by (simp add: reducer_step_def)
  have "reduce c meta st (before @ [action] @ after) = reduce c meta st (before @ after)"
    by (simp add: reduce_append step and_then_def split: sum.splits)
  with step show ?thesis
    by simp
qed

theorem reducer_step_unknown_type_witness:
  "reducer_step K (spec_Meta ''Book'' ''id'') books (hd log_unknown) = Inr books \<and>
   reduce K (spec_Meta ''Book'' ''id'') books
     (map (record_for K) log_B @ [hd log_unknown] @ map (record_for K) log_create) =
   reduce K (spec_Meta ''Book'' ''id'') books
     (map (record_for K) log_B @ map (record_for K) log_create)"
proof -
  have 1: "mut_type (hd log_unknown) \<noteq> CREATE K"
    and 2: "mut_type (hd log_unknown) \<noteq> UPDATE K"
    and 3: "mut_type (hd log_unknown) \<noteq> DELETE K"
    by (simp_all add: log_unknown_def K_def)
  show ?thesis
    by (rule reducer_step_unknown_type [OF 1 2 3])
qed


section \<open>Writes through an instance\<close>

text \<open>
  C2. Assigning to a plain field of an instance with a known id leaves the instance
  as it is and appends exactly one Update record to the session, but the effect is
  not visible after the next \<^verbatim>\<open>getNextState\<close>: the setter (lines 70-81) builds the
  payload \<^verbatim>\<open>{id: 1, name: 'c'}\<close>, while the fold (line 199) reads
  \<^verbatim>\<open>payload.idArr\<close> and \<^verbatim>\<open>payload.updater\<close>, which that payload does not have.
  Evaluated on the book \<^verbatim>\<open>{id: 1, name: 'a'}\<close> and the assignment
  \<^verbatim>\<open>book.name = 'c'\<close>: the log holds the one record \<open>stray_update\<close>, the fold hands
  \<^verbatim>\<open>undefined\<close>, \<^verbatim>\<open>undefined\<close> to \<^verbatim>\<open>meta.update\<close> whatever the Meta instance
  is, and with the branch algebra of the specification the derived branch is the old
  one, row 1 still named \<^verbatim>\<open>'a'\<close>.
\<close>

theorem plain_assignment_never_reaches_branch:
  "(case new_Model w0 0 row1 of
      Inr (this, w1) \<Rightarrow>
        (case assign_plain K w1 this ''name'' (JStr ''c'') of
           Some (Inr (this', w2)) \<Rightarrow>
             this' = this \<and>
             Session_mutations (sessions w2 0) = [stray_update] \<and>
             map_sum id fst (getNextState K w2 0) = Inr books
         | _ \<Rightarrow> False)
    | Inl e \<Rightarrow> False) \<and>
   reducer_step K meta st stray_update = Meta_update meta st JUndefined JUndefined"
proof -
  let ?w1 = "set_class w0 0 ((classes w0 0)\<lparr>u_meta := Some (spec_Meta ''Book'' ''id'')\<rparr>)"
  let ?w2 = "append_mutation ?w1 0 stray_update"
  have M1: "getMetaInstance ?w1 0 = Inr (spec_Meta ''Book'' ''id'', ?w1)"
    by (simp add: getMetaInstance_def set_class_def)
  have c0: "getClass (book_instance row1) = 0"
    by (simp add: book_instance_def)
  have gi: "getId ?w1 (book_instance row1) = Inr (JNum 1, ?w1)"
    unfolding getId_eq [of ?w1 "book_instance row1", unfolded c0, OF M1]
    by (simp add: book_instance_def spec_Meta_def row1_def obj_get_def)
  have sa: "session_addMutation ?w1 (JSession 0) stray_update = Inr ?w2"
    by (simp add: session_addMutation_def Session_addMutation_def and_then_def
        append_mutation_def set_class_def w0_def world_of_def open_session_def stray_update_def)
  have acc: "map_of (accessors (book_instance row1)) ''name'' =
      Some (PlainAccessor (JStr ''a'') (JSession 0) ''id'' ''Book'')"
    by (simp add: book_instance_def book_accessors_def row1_def)
  have rec: "\<lparr>mut_type = UPDATE K,
      mut_payload = JObj [(''id'', JNum 1), (''name'', JStr ''c'')],
      mut_meta_name = ''Book''\<rparr> = stray_update"
    by (simp add: stray_update_def K_def)
  have a: "assign_plain K ?w1 (book_instance row1) ''name'' (JStr ''c'') =
      Some (Inr (book_instance row1, ?w2))"
    by (simp add: assign_plain_def acc plain_setter_def gi and_then_def rec sa)
  have M2: "getMetaInstance ?w2 0 = Inr (spec_Meta ''Book'' ''id'', ?w2)"
    by (simp add: getMetaInstance_def set_class_def append_mutation_def)
  have S2: "session ?w2 0 = JSession 0"
    by (simp add: session_def set_class_def append_mutation_def w0_def world_of_def)
  have log: "Session_mutations (sessions ?w2 0) = [stray_update]"
    by (simp add: append_mutation_def set_class_def w0_def world_of_def open_session_def)
  have st: "Session_getState (sessions ?w2 0) ''Book'' = Some books"
    by (simp add: Session_getState_def append_mutation_def set_class_def w0_def world_of_def
        open_session_def)
  have n: "Meta_name (spec_Meta ''Book'' ''id'') = ''Book''"
    by (simp add: spec_Meta_def)
  have upd: "Meta_update (spec_Meta ''Book'' ''id'') books JUndefined JUndefined = Inr books"
    by (simp add: spec_Meta_def Branch_update_def ids_of_def books_def)
  have nm: "mut_meta_name stray_update = ''Book''"
    by (simp add: stray_update_def)
  have g: "map_sum id fst (getNextState K ?w2 0) = Inr books"
    unfolding getNextState_unfold [OF M2 S2]
    by (simp add: n st Session_getMutationsFor_def log nm reducer_step_stray_update upd
        and_then_def)
  show ?thesis
    by (simp add: new_Model_book_world a log g reducer_step_stray_update)
qed

theorem plain_assignment_never_reaches_branch_witness:
  "reducer_step K (spec_Meta ''Book'' ''id'') books stray_update = Inr books"
proof -
  have "reducer_step K (spec_Meta ''Book'' ''id'') books stray_update =
      Meta_update (spec_Meta ''Book'' ''id'') books JUndefined JUndefined"
    by (rule conjunct2 [OF plain_assignment_never_reaches_branch])
  then show ?thesis
    by (simp add: spec_Meta_def Branch_update_def ids_of_def books_def)
qed

text \<open>
  C5. On an instance whose class has its Meta instance and is connected to an open
  session that knows the model, \<^verbatim>\<open>update(mergeObj)\<close> appends exactly one record to
  that session's log, the Update for \<^verbatim>\<open>[this.getId()]\<close> whose updater is
  \<^verbatim>\<open>mergeObj\<close> as a whole, and \<^verbatim>\<open>set(propertyName, v)\<close> appends exactly one
  record, the Update whose updater is the object with that single field. The instance
  and every other part of the world stay as they are (but for the cached Meta
  instance).
\<close>

theorem update_appends_one_record:
  assumes "getMetaInstance w (getClass this) = Inr (meta, w1)"
    and "session w (getClass this) = JSession a"
    and "\<not> Session_finalized (sessions w a)"
    and "Meta_name meta \<in> set (Session_schemas (sessions w a))"
  shows "update c w this mergeObj =
      Inr (this, append_mutation w1 a
        (record_for c (Meta_name meta,
           Update (JArr [obj_get (u_fields this) (Meta_idAttribute meta)]) mergeObj))) \<and>
    set_property c w this propertyName v =
      Inr (this, append_mutation w1 a
        (record_for c (Meta_name meta,
           Update (JArr [obj_get (u_fields this) (Meta_idAttribute meta)])
             (JObj [(propertyName, v)])))) \<and>
    Session_mutations (sessions (append_mutation w1 a m) a) =
      Session_mutations (sessions w a) @ [m]"
proof -
  note M1 = getMetaInstance_again [OF assms(1)]
  note F = getMetaInstance_frame [OF assms(1)]
  have S1: "session w1 (getClass this) = JSession a"
    by (simp add: F assms(2))
  have O1: "\<not> Session_finalized (sessions w1 a)"
    and N1: "Meta_name meta \<in> set (Session_schemas (sessions w1 a))"
    using assms(3,4) by (simp_all add: F)
  have u: "update c w this obj =
      Inr (this, append_mutation w1 a
        (record_for c (Meta_name meta,
           Update (JArr [obj_get (u_fields this) (Meta_idAttribute meta)]) obj)))" for obj
    by (simp add: update_def getId_eq [OF assms(1)] getName_eq [OF M1] and_then_def
        addMutation_eq [OF M1 S1 O1 N1])
  have "Session_mutations (sessions (append_mutation w1 a m) a) =
      Session_mutations (sessions w a) @ [m]"
    by (simp add: log_append_mutation F)
  with u show ?thesis
    by (simp add: set_property_def)
qed

theorem update_appends_one_record_witness:
  "map_sum id (\<lambda>(this, w'). (this, Session_mutations (sessions w' 0)))
     (update K w0 (book_instance row1) (JObj [(''name'', JStr ''c''), (''year'', JNum 1999)])) =
   Inr (book_instance row1,
        [\<lparr>mut_type = ''UPDATE'',
          mut_payload = JObj [(''idArr'', JArr [JNum 1]),
                              (''updater'', JObj [(''name'', JStr ''c''), (''year'', JNum 1999)])],
          mut_meta_name = ''Book''\<rparr>]) \<and>
   map_sum id (\<lambda>(this, w'). (this, Session_mutations (sessions w' 0)))
     (set_property K w0 (book_instance row1) ''name'' (JStr ''c'')) =
   Inr (book_instance row1,
        [\<lparr>mut_type = ''UPDATE'',
          mut_payload = JObj [(''idArr'', JArr [JNum 1]),
                              (''updater'', JObj [(''name'', JStr ''c'')])],
          mut_meta_name = ''Book''\<rparr>])"
proof -
  have 1: "getMetaInstance w0 (getClass (book_instance row1)) =
      Inr (spec_Meta ''Book'' ''id'',
           set_class w0 0 ((classes w0 0)\<lparr>u_meta := Some (spec_Meta ''Book'' ''id'')\<rparr>))"
    by (simp add: book_instance_def w0_def Book_meta)
  have 2: "session w0 (getClass (book_instance row1)) = JSession 0"
    by (simp add: session_def w0_def world_of_def)
  have 3: "\<not> Session_finalized (sessions w0 0)"
    by (simp add: w0_def world_of_def open_session_def)
  have 4: "Meta_name (spec_Meta ''Book'' ''id'') \<in> set (Session_schemas (sessions w0 0))"
    by (simp add: w0_def world_of_def open_session_def spec_Meta_def)
  note T = update_appends_one_record [OF 1 2 3 4, of K _ "''name''" "JStr ''c''"]
  have log: "Session_mutations (sessions w0 0) = []"
    by (simp add: w0_def world_of_def open_session_def)
  have id1: "obj_get (u_fields (book_instance row1)) (Meta_idAttribute (spec_Meta ''Book'' ''id'')) =
      JNum 1"
    by (simp add: book_instance_def row1_def obj_get_def spec_Meta_def)
  have n: "Meta_name (spec_Meta ''Book'' ''id'') = ''Book''"
    by (simp add: spec_Meta_def)
  show ?thesis
    using T by (simp add: log id1 n K_def)
qed

text \<open>
  C7. \<^verbatim>\<open>delete()\<close> evaluated on the book \<^verbatim>\<open>{id: 1, name: 'a'}\<close>: it reads
  \<^verbatim>\<open>this.session\<close>, a property the instance does not have (the getter
  \<^verbatim>\<open>session\<close> is static), and throws a TypeError before any record is built.
  Nothing is appended to the session; \<^verbatim>\<open>update\<close> (lines 400-411) goes through
  \<^verbatim>\<open>this.getClass().addMutation\<close> instead.
\<close>

theorem delete_throws_TypeError:
  "(case new_Model w0 0 row1 of
      Inr (this, w1) \<Rightarrow> this = book_instance row1 \<and> delete K field_get w1 this = Inl TypeError
    | Inl e \<Rightarrow> False)"
proof -
  have "map_of (accessors (book_instance row1)) ''session'' = None"
    by (simp add: book_instance_def book_accessors_def row1_def)
  then have "delete K field_get w (book_instance row1) = Inl TypeError" for w :: "Branch world"
    by (rule delete_without_session_property)
  then show ?thesis
    by (simp add: new_Model_book_world)
qed

theorem delete_throws_TypeError_witness:
  "(case new_Model w0 0 row1 of
      Inr (this, w1) \<Rightarrow>
        this = book_instance row1 \<and>
        delete K (\<lambda>w this fieldInstance k. JSession 0) w1 this = Inl TypeError
    | Inl e \<Rightarrow> False)"
  by (rule delete_throws_TypeError)


section \<open>Equality, through models, connecting\<close>

text \<open>
  C6. For instances \<open>a\<close> and \<open>b\<close> with primitive ids, \<^verbatim>\<open>a.equals(b)\<close> returns true
  if and only if \<open>a\<close> and \<open>b\<close> have the same class and the same value under the id
  attribute; no other field of the two snapshots is read.
\<close>

theorem equals_iff_class_and_id:
  assumes "getMetaInstance w (getClass a) = Inr (meta, w1)"
    and "is_primitive (obj_get (u_fields a) (Meta_idAttribute meta))"
    and "is_primitive (obj_get (u_fields b) (Meta_idAttribute meta))"
  shows "map_sum id fst (equals w a b) =
    Inr (getClass a = getClass b \<and>
         obj_get (u_fields a) (Meta_idAttribute meta) = obj_get (u_fields b) (Meta_idAttribute meta))"
proof (cases "getClass a = getClass b")
  case True
  note M1 = getMetaInstance_again [OF assms(1)]
  have "getId w1 b = Inr (obj_get (u_fields b) (Meta_idAttribute meta), w1)"
    using M1 True by (simp add: getId_def and_then_def)
  then show ?thesis
    by (simp add: equals_def True [symmetric] getId_eq [OF assms(1)] and_then_def
        strict_equals_def)
next
  case False
  then show ?thesis
    by (simp add: equals_def)
qed

theorem equals_iff_class_and_id_witness:
  "map_sum id fst (equals w0 (book_instance row1) (book_instance row1_stale)) = Inr True \<and>
   map_sum id fst (equals w0 (book_instance row1) (book_instance row2)) = Inr False \<and>
   map_sum id fst (equals w0 (book_instance row1) ((book_instance row1)\<lparr>getClass := 1\<rparr>)) =
     Inr False"
proof -
  have 1: "getMetaInstance w0 (getClass (book_instance row1)) =
      Inr (spec_Meta ''Book'' ''id'',
           set_class w0 0 ((classes w0 0)\<lparr>u_meta := Some (spec_Meta ''Book'' ''id'')\<rparr>))"
    by (simp add: book_instance_def w0_def Book_meta)
  have p: "is_primitive (obj_get (u_fields (book_instance r)) (Meta_idAttribute (spec_Meta ''Book'' ''id'')))"
    if "r = row1 \<or> r = row2 \<or> r = row1_stale" for r
    using that
    by (auto simp: book_instance_def row1_def row2_def row1_stale_def obj_get_def spec_Meta_def)
  have p': "is_primitive (obj_get (u_fields ((book_instance row1)\<lparr>getClass := 1\<rparr>))
      (Meta_idAttribute (spec_Meta ''Book'' ''id'')))"
    by (simp add: book_instance_def row1_def obj_get_def spec_Meta_def)
  show ?thesis
    using equals_iff_class_and_id [OF 1 p p, of row1_stale]
      equals_iff_class_and_id [OF 1 p p, of row2]
      equals_iff_class_and_id [OF 1 p p']
    by (simp add: book_instance_def row1_def row2_def row1_stale_def obj_get_def spec_Meta_def)
qed

text \<open>
  C8. For a model named \<open>A\<close>, \<^verbatim>\<open>getManyToManyModels()\<close> returns one through model per
  declared many-to-many field \<open>F\<close> with target \<open>B\<close>, in declaration order and for no
  other field: its name is \<^verbatim>\<open>m2mName(A, F)\<close>, a function of \<open>A\<close> and \<open>F\<close> alone, and
  its fields are exactly two foreign keys under two different names,
  \<^verbatim>\<open>m2mFromFieldName(A)\<close> referencing \<open>A\<close> and \<^verbatim>\<open>m2mToFieldName(B)\<close> referencing
  \<open>B\<close>, where the target \<^verbatim>\<open>this\<close> stands for \<open>A\<close>: a self-reference gives two
  foreign keys to \<open>A\<close> under the from and the to name. The names are those of the
  spec's naming rule, \<open>spec_utils\<close>, for which the from and the to name never
  coincide (\<open>spec_utils_from_to\<close>).
\<close>

theorem getManyToManyModels_through_entities:
  assumes "getName w cid = Inr (A, w1)"
  shows "getManyToManyModels (spec_utils through_name of_name) w cid =
      Inr (map (spec_through (spec_utils through_name of_name) A)
             (declared_m2m A (class_fields (classes w cid))), w1) \<and>
    list_all (\<lambda>T. length (Through_fields T) = 2 \<and> distinct (map fst (Through_fields T)))
      (map (spec_through (spec_utils through_name of_name) A)
         (declared_m2m A (class_fields (classes w cid))))"
proof
  from assms obtain meta where M: "getMetaInstance w cid = Inr (meta, w1)"
    by (auto simp: getName_def and_then_def split: sum.splits)
  have "class_fields (classes w1 cid) = class_fields (classes w cid)"
    by (rule getMetaInstance_frame(3) [OF M])
  then show "getManyToManyModels (spec_utils through_name of_name) w cid =
      Inr (map (spec_through (spec_utils through_name of_name) A)
             (declared_m2m A (class_fields (classes w cid))), w1)"
    by (simp add: getManyToManyModels_def assms and_then_def
        forOwn_fields_eq [OF from_to_distinct_spec_utils])
next
  show "list_all (\<lambda>T. length (Through_fields T) = 2 \<and> distinct (map fst (Through_fields T)))
      (map (spec_through (spec_utils through_name of_name) A)
         (declared_m2m A (class_fields (classes w cid))))"
    using spec_through_two_fields [OF spec_utils_from_to]
    by (simp add: list_all_iff)
qed

theorem getManyToManyModels_through_entities_witness:
  "map_sum id fst (getManyToManyModels naming w0 0) =
   Inr [\<lparr>Through_fields = [(''fromBookId'', ForeignKey ''Book''), (''toTagId'', ForeignKey ''Tag'')],
         Through_getMetaOptions = [(''name'', JStr ''Booktags'')]\<rparr>,
        \<lparr>Through_fields = [(''fromBookId'', ForeignKey ''Book''), (''toBookId'', ForeignKey ''Book'')],
         Through_getMetaOptions = [(''name'', JStr ''Bookrelated'')]\<rparr>]"
proof -
  have 1: "getName w0 0 =
      Inr (''Book'', set_class w0 0 ((classes w0 0)\<lparr>u_meta := Some (spec_Meta ''Book'' ''id'')\<rparr>))"
    by (simp add: getName_def w0_def Book_meta and_then_def spec_Meta_def)
  note T = conjunct1 [OF getManyToManyModels_through_entities [OF 1,
      of "\<lambda>A F. A @ F" "\<lambda>A. A @ ''Id''"]]
  show ?thesis
    unfolding naming_def T
    by (simp add: w0_def world_of_def Book_def spec_utils_def target_of_def spec_through_def)
qed

text \<open>
  C10. The guard of \<^verbatim>\<open>connect\<close> tests the boolean \<^verbatim>\<open>!session\<close>, which is never an
  instance of Session: for every argument \<open>x\<close>, truthy or not, a session or not,
  \<^verbatim>\<open>connect(x)\<close> throws nothing and afterwards the class's session is \<open>x\<close>.
\<close>

theorem connect_never_rejects:
  "\<not> instanceof_Session (JBool (\<not> truthy x)) \<and>
   connect w cid x = Inr (set_class w cid ((classes w cid)\<lparr>u_session := x\<rparr>)) \<and>
   session (set_class w cid ((classes w cid)\<lparr>u_session := x\<rparr>)) cid = x"
  by (simp add: connect_def session_def set_class_def)

theorem connect_never_rejects_witness:
  "truthy (JNum 5) \<and> \<not> instanceof_Session (JNum 5) \<and>
   connect w0 0 (JNum 5) = Inr (set_class w0 0 ((classes w0 0)\<lparr>u_session := JNum 5\<rparr>)) \<and>
   session (set_class w0 0 ((classes w0 0)\<lparr>u_session := JNum 5\<rparr>)) 0 = JNum 5"
  using connect_never_rejects [of "JNum 5" w0 0]
  by simp

end
